theory Spec2Isabelle
  imports Complex_Main
begin

section \<open>Values exchanged over HTTP\<close>

text \<open>
  Values that \<^verbatim>\<open>JSON.parse\<close> produces and \<^verbatim>\<open>res.json\<close> serialises. An object is the
  list of its own properties. Numbers are never inspected by \<^verbatim>\<open>server.js\<close>; they are
  carried as rationals.
\<close>

datatype json =
    JNull
  | JBool bool
  | JNum rat
  | JStr string
  | JArr "json list"
  | JObj "(string \<times> json) list"

text \<open>
  The provider's response body (\<^verbatim>\<open>response.data\<close>): a plain object whose own properties
  map an asset id to a quote object (usd, usd_24h_change, usd_market_cap, usd_24h_vol).
  Both levels are kept as own-property lists.
\<close>

type_synonym PriceData = "(string \<times> (string \<times> json) list) list"

definition price_json :: "PriceData \<Rightarrow> json" where
  "price_json prices = JObj (map (\<lambda>(k, q). (k, JObj q)) prices)"

text \<open>
  A property read \<^verbatim>\<open>obj[k]\<close> on a plain object follows the prototype chain: an own
  property wins, otherwise a member of \<^verbatim>\<open>Object.prototype\<close> is found, otherwise the read
  gives \<^verbatim>\<open>undefined\<close>.
\<close>

definition Object_prototype_names :: "string list" where
  "Object_prototype_names =
     [''constructor'', ''__defineGetter__'', ''__defineSetter__'', ''hasOwnProperty'',
      ''__lookupGetter__'', ''__lookupSetter__'', ''isPrototypeOf'',
      ''propertyIsEnumerable'', ''toString'', ''valueOf'', ''__proto__'',
      ''toLocaleString'']"

datatype 'a property = Undefined | Own 'a | Inherited

definition get_property :: "(string \<times> 'a) list \<Rightarrow> string \<Rightarrow> 'a property" where
  "get_property obj k =
     (case map_of obj k of
        Some v \<Rightarrow> Own v
      | None \<Rightarrow> if k \<in> set Object_prototype_names then Inherited else Undefined)"

text \<open>
  Truthiness of what a read on a \<^typ>\<open>PriceData\<close> object gives: an own entry is an object,
  an inherited member is a function or an object; only \<^verbatim>\<open>undefined\<close> is falsy.
\<close>

fun truthy :: "'a property \<Rightarrow> bool" where
  "truthy Undefined = False"
| "truthy (Own v) = True"
| "truthy Inherited = True"

record http_response =
  status :: nat
  body :: json

section \<open>Strings\<close>

text \<open>
  \<^verbatim>\<open>String.prototype.startsWith\<close> and \<^verbatim>\<open>toLowerCase\<close>. Strings are byte lists here, so
  \<open>toLowerCase\<close> maps the letters A to Z and leaves every other character as it is.
\<close>

definition startsWith :: "string \<Rightarrow> string \<Rightarrow> bool" where
  "startsWith s p = (take (length p) s = p)"

definition toLowerCase_char :: "char \<Rightarrow> char" where
  "toLowerCase_char ch =
     (let n = (of_char ch :: nat) in if 65 \<le> n \<and> n \<le> 90 then char_of (n + 32) else ch)"

definition toLowerCase :: "string \<Rightarrow> string" where
  "toLowerCase s = map toLowerCase_char s"

section \<open>Process state\<close>

text \<open>The two module-level maps \<^verbatim>\<open>cache\<close> and \<^verbatim>\<open>apiKeys\<close>, and \<^verbatim>\<open>CACHE_TTL\<close>.\<close>

record 'd cache_entry =
  data :: 'd
  timestamp :: int

type_synonym 'd cache = "string \<rightharpoonup> 'd cache_entry"

definition CACHE_TTL :: int where
  "CACHE_TTL = 60000"

record api_key_record =
  tier :: json
  createdAt :: int

record server_state =
  cache :: "PriceData cache"
  apiKeys :: "string \<rightharpoonup> api_key_record"

section \<open>Rate limiting\<close>

datatype tier_name = Free | Pro | Enterprise

fun tier_string :: "tier_name \<Rightarrow> string" where
  "tier_string Free = ''free''"
| "tier_string Pro = ''pro''"
| "tier_string Enterprise = ''enterprise''"

record limit =
  windowMs :: nat
  max_requests :: nat

record rate_limit_options =
  opt_windowMs :: nat
  opt_max :: nat
  opt_message :: json

text \<open>The table \<^verbatim>\<open>limits\<close> inside \<^verbatim>\<open>createRateLimit\<close>.\<close>

fun limits :: "tier_name \<Rightarrow> limit" where
  "limits Free = \<lparr>windowMs = 60 * 60 * 1000, max_requests = 100\<rparr>"
| "limits Pro = \<lparr>windowMs = 60 * 60 * 1000, max_requests = 10000\<rparr>"
| "limits Enterprise = \<lparr>windowMs = 60 * 60 * 1000, max_requests = 100000\<rparr>"

text \<open>
  \<^verbatim>\<open>createRateLimit\<close> builds the options object it hands to \<^verbatim>\<open>rateLimit\<close> of
  express-rate-limit. The library is not part of the repository: a limiter is a
  parameter \<open>rateLimit\<close> that, for the request at hand, either lets it pass (\<open>None\<close>) or
  answers it (\<open>Some r\<close>).
\<close>

definition createRateLimit :: "tier_name \<Rightarrow> rate_limit_options" where
  "createRateLimit t =
     \<lparr>opt_windowMs = windowMs (limits t),
      opt_max = max_requests (limits t),
      opt_message = JObj [(''error'', JStr ''Rate limit exceeded. Upgrade your plan.'')]\<rparr>"

section \<open>API key middleware\<close>

text \<open>
  \<^verbatim>\<open>validateApiKey\<close> reads the header \<^verbatim>\<open>x-api-key\<close>: \<open>None\<close> is an absent header. The test
  \<^verbatim>\<open>!apiKey\<close> holds for \<^verbatim>\<open>undefined\<close> and for the empty string. On success the middleware
  sets \<^verbatim>\<open>req.tier\<close> and \<^verbatim>\<open>req.apiKey\<close>, returned here as a pair.
\<close>

definition validateApiKey :: "string option \<Rightarrow> http_response + (tier_name \<times> string)" where
  "validateApiKey header =
     (case header of
        None \<Rightarrow>
          Inl \<lparr>status = 401,
               body = JObj [(''error'', JStr ''API key required''),
                            (''message'', JStr ''Get your free API key at https://your-domain.com'')]\<rparr>
      | Some apiKey \<Rightarrow>
          if apiKey = [] then
            Inl \<lparr>status = 401,
                 body = JObj [(''error'', JStr ''API key required''),
                              (''message'', JStr ''Get your free API key at https://your-domain.com'')]\<rparr>
          else
            (let t0 = Free;
                 t1 = (if startsWith apiKey ''pro_'' then Pro else t0);
                 t2 = (if startsWith apiKey ''ent_'' then Enterprise else t1)
             in Inr (t2, apiKey)))"

section \<open>Fetching prices through the cache\<close>

text \<open>
  What one call of \<^verbatim>\<open>getCryptoPrices\<close> reads from outside the process: the clock at the
  freshness test, the outcome of \<^verbatim>\<open>axios.get\<close> for a URL and a timeout (\<open>Inl m\<close> is a
  rejected promise whose error has message \<open>m\<close>, \<open>Inr d\<close> a response with
  \<^verbatim>\<open>response.data = d\<close>), the clock when the entry is stored, and the ISO time the
  route handler puts into its answer.
\<close>

record 'd world =
  date_now_check :: int
  axios_get :: "string \<Rightarrow> nat \<Rightarrow> string + 'd"
  date_now_store :: int
  date_iso :: string

text \<open>
  What the call does: its result (\<open>Inl m\<close> is the rethrown error), the cache it leaves,
  the URLs it requested upstream and the lines it wrote with \<^verbatim>\<open>console.error\<close>.
\<close>

record 'd fetch_outcome =
  result :: "string + 'd"
  cache_after :: "'d cache"
  requested :: "string list"
  logged :: "string list"

definition cacheKey :: "string \<Rightarrow> string" where
  "cacheKey ids = ''prices_'' @ ids"

definition price_url :: "string \<Rightarrow> string" where
  "price_url ids =
     ''https://api.coingecko.com/api/v3/simple/price?ids='' @ ids @
     ''&vs_currencies=usd&include_24hr_change=true&include_market_cap=true&include_24hr_vol=true''"

text \<open>The \<^verbatim>\<open>try\<close> block of \<^verbatim>\<open>getCryptoPrices\<close> with its \<^verbatim>\<open>catch\<close>.\<close>

definition fetch_and_store :: "'d world \<Rightarrow> string \<Rightarrow> 'd cache \<Rightarrow> 'd fetch_outcome" where
  "fetch_and_store w ids c =
     (case axios_get w (price_url ids) 10000 of
        Inr d \<Rightarrow>
          \<lparr>result = Inr d,
           cache_after = c(cacheKey ids \<mapsto> \<lparr>data = d, timestamp = date_now_store w\<rparr>),
           requested = [price_url ids],
           logged = []\<rparr>
      | Inl m \<Rightarrow>
          \<lparr>result = Inl m,
           cache_after = c,
           requested = [price_url ids],
           logged = [''Error fetching prices: '' @ m]\<rparr>)"

text \<open>
  The parameter of \<^verbatim>\<open>getCryptoPrices\<close> has the default \<^verbatim>\<open>'bitcoin,ethereum'\<close>: \<open>None\<close> is
  a call without argument.
\<close>

definition ids_or_default :: "string option \<Rightarrow> string" where
  "ids_or_default ids_arg = (case ids_arg of None \<Rightarrow> ''bitcoin,ethereum'' | Some s \<Rightarrow> s)"

text \<open>
  One call of \<^verbatim>\<open>getCryptoPrices\<close>, run without another request interleaving at its
  \<^verbatim>\<open>await\<close>.
\<close>

definition getCryptoPrices :: "'d world \<Rightarrow> string option \<Rightarrow> 'd cache \<Rightarrow> 'd fetch_outcome" where
  "getCryptoPrices w ids_arg c =
     (let ids = ids_or_default ids_arg in
      case c (cacheKey ids) of
        Some cached \<Rightarrow>
          if date_now_check w - timestamp cached < CACHE_TTL then
            \<lparr>result = Inr (data cached), cache_after = c, requested = [], logged = []\<rparr>
          else fetch_and_store w ids c
      | None \<Rightarrow> fetch_and_store w ids c)"

section \<open>Routes\<close>

record route_outcome =
  reply :: http_response
  state_after :: server_state
  upstream_requests :: "string list"
  console :: "string list"

definition success_body :: "tier_name \<Rightarrow> PriceData \<Rightarrow> string \<Rightarrow> json" where
  "success_body t prices ts =
     JObj [(''success'', JBool True),
           (''tier'', JStr (tier_string t)),
           (''data'', price_json prices),
           (''timestamp'', JStr ts)]"

text \<open>The handler of \<^verbatim>\<open>GET /prices\<close>.\<close>

definition prices_handler :: "PriceData world \<Rightarrow> tier_name \<Rightarrow> server_state \<Rightarrow> route_outcome" where
  "prices_handler w req_tier s =
     (let out = getCryptoPrices w (Some ''bitcoin,ethereum'') (cache s) in
      case result out of
        Inr prices \<Rightarrow>
          \<lparr>reply = \<lparr>status = 200, body = success_body req_tier prices (date_iso w)\<rparr>,
           state_after = s\<lparr>cache := cache_after out\<rparr>,
           upstream_requests = requested out,
           console = logged out\<rparr>
      | Inl m \<Rightarrow>
          \<lparr>reply = \<lparr>status = 500,
                     body = JObj [(''error'', JStr ''Failed to fetch prices''),
                                  (''message'', JStr m)]\<rparr>,
           state_after = s\<lparr>cache := cache_after out\<rparr>,
           upstream_requests = requested out,
           console = logged out\<rparr>)"

text \<open>The handler of \<^verbatim>\<open>GET /prices/:id\<close>; \<open>req_id\<close> is \<^verbatim>\<open>req.params.id\<close>.\<close>

definition price_by_id_handler ::
  "PriceData world \<Rightarrow> tier_name \<Rightarrow> string \<Rightarrow> server_state \<Rightarrow> route_outcome" where
  "price_by_id_handler w req_tier req_id s =
     (let out = getCryptoPrices w (Some (toLowerCase req_id)) (cache s) in
      case result out of
        Inr prices \<Rightarrow>
          if \<not> truthy (get_property prices (toLowerCase req_id)) then
            \<lparr>reply = \<lparr>status = 404,
                       body = JObj [(''error'', JStr ''Cryptocurrency not found''),
                                    (''message'', JStr (''No data for '' @ [CHR 0x27] @ req_id @ [CHR 0x27] @
                                       ''. Try '' @ [CHR 0x27] @ ''bitcoin'' @ [CHR 0x27] @
                                       '', '' @ [CHR 0x27] @ ''ethereum'' @ [CHR 0x27] @
                                       '', '' @ [CHR 0x27] @ ''cardano'' @ [CHR 0x27] @ '', etc.''))]\<rparr>,
             state_after = s\<lparr>cache := cache_after out\<rparr>,
             upstream_requests = requested out,
             console = logged out\<rparr>
          else
            \<lparr>reply = \<lparr>status = 200, body = success_body req_tier prices (date_iso w)\<rparr>,
             state_after = s\<lparr>cache := cache_after out\<rparr>,
             upstream_requests = requested out,
             console = logged out\<rparr>
      | Inl m \<Rightarrow>
          \<lparr>reply = \<lparr>status = 500,
                     body = JObj [(''error'', JStr ''Failed to fetch price''),
                                  (''message'', JStr m)]\<rparr>,
           state_after = s\<lparr>cache := cache_after out\<rparr>,
           upstream_requests = requested out,
           console = logged out\<rparr>)"

text \<open>
  The middleware chain of a price route: \<^verbatim>\<open>validateApiKey\<close>, then the limiter built by
  \<^verbatim>\<open>createRateLimit('free')\<close>, then the handler.
\<close>

definition price_route ::
  "(rate_limit_options \<Rightarrow> http_response option) \<Rightarrow> string option \<Rightarrow>
   (tier_name \<Rightarrow> server_state \<Rightarrow> route_outcome) \<Rightarrow> server_state \<Rightarrow> route_outcome" where
  "price_route rateLimit header handler s =
     (case validateApiKey header of
        Inl r \<Rightarrow> \<lparr>reply = r, state_after = s, upstream_requests = [], console = []\<rparr>
      | Inr (req_tier, req_apiKey) \<Rightarrow>
          (case rateLimit (createRateLimit Free) of
             Some r \<Rightarrow> \<lparr>reply = r, state_after = s, upstream_requests = [], console = []\<rparr>
           | None \<Rightarrow> handler req_tier s))"

definition get_prices ::
  "(rate_limit_options \<Rightarrow> http_response option) \<Rightarrow> PriceData world \<Rightarrow> string option \<Rightarrow>
   server_state \<Rightarrow> route_outcome" where
  "get_prices rateLimit w header s = price_route rateLimit header (prices_handler w) s"

definition get_price_by_id ::
  "(rate_limit_options \<Rightarrow> http_response option) \<Rightarrow> PriceData world \<Rightarrow> string option \<Rightarrow>
   string \<Rightarrow> server_state \<Rightarrow> route_outcome" where
  "get_price_by_id rateLimit w header req_id s =
     price_route rateLimit header (\<lambda>req_tier. price_by_id_handler w req_tier req_id) s"

text \<open>
  \<^verbatim>\<open>POST /generate-key\<close>. The body is the object \<^verbatim>\<open>express.json()\<close> parsed. The two
  random fragments \<^verbatim>\<open>Math.random().toString(36).substring(2, 15)\<close> and the value of
  \<^verbatim>\<open>new Date()\<close> come from outside.
\<close>

record keygen_world =
  random1 :: string
  random2 :: string
  new_date :: int

definition generate_key :: "keygen_world \<Rightarrow> (string \<times> json) list \<Rightarrow> server_state \<Rightarrow> route_outcome" where
  "generate_key g req_body s =
     (let t = (case map_of req_body ''tier'' of None \<Rightarrow> JStr ''free'' | Some v \<Rightarrow> v);
          pre = (if t = JStr ''pro'' then ''pro_''
                 else if t = JStr ''enterprise'' then ''ent_'' else ''free_'');
          key = pre @ random1 g @ random2 g
      in \<lparr>reply = \<lparr>status = 200,
                    body = JObj [(''apiKey'', JStr key),
                                 (''tier'', t),
                                 (''message'', JStr ''This is a test key. For production, please upgrade.'')]\<rparr>,
          state_after = s\<lparr>apiKeys := (apiKeys s)(key \<mapsto> \<lparr>tier = t, createdAt = new_date g\<rparr>)\<rparr>,
          upstream_requests = [],
          console = []\<rparr>)"

section \<open>Sample inputs\<close>

text \<open>Concrete inputs on which the theorems below are exercised.\<close>

definition sample_prices :: PriceData where
  "sample_prices = [(''bitcoin'', [(''usd'', JNum 43000)])]"

definition sample_entry :: "PriceData cache_entry" where
  "sample_entry = \<lparr>data = sample_prices, timestamp = 1250\<rparr>"

definition warm_cache :: "PriceData cache" where
  "warm_cache = [''prices_bitcoin'' \<mapsto> sample_entry]"

definition world_up :: "PriceData world" where
  "world_up = \<lparr>date_now_check = 1000, axios_get = (\<lambda>url timeout. Inr sample_prices),
               date_now_store = 1250, date_iso = ''2024-01-01T00:00:01.250Z''\<rparr>"

definition world_down :: "PriceData world" where
  "world_down = \<lparr>date_now_check = 61249,
                 axios_get = (\<lambda>url timeout. Inl ''timeout of 10000ms exceeded''),
                 date_now_store = 61300, date_iso = ''2024-01-01T00:01:01.249Z''\<rparr>"

definition world_later :: "PriceData world" where
  "world_later = \<lparr>date_now_check = 61250, axios_get = (\<lambda>url timeout. Inr []),
                  date_now_store = 61400, date_iso = ''2024-01-01T00:01:01.250Z''\<rparr>"

definition world_later_down :: "PriceData world" where
  "world_later_down = \<lparr>date_now_check = 61250,
                       axios_get = (\<lambda>url timeout. Inl ''Network Error''),
                       date_now_store = 61400, date_iso = ''2024-01-01T00:01:01.250Z''\<rparr>"

definition empty_state :: server_state where
  "empty_state = \<lparr>cache = Map.empty, apiKeys = Map.empty\<rparr>"

definition allow_all :: "rate_limit_options \<Rightarrow> http_response option" where
  "allow_all opts = None"

definition free_budget_spent :: "rate_limit_options \<Rightarrow> http_response option" where
  "free_budget_spent opts =
     (if opt_max opts = 100 then Some \<lparr>status = 429, body = opt_message opts\<rparr> else None)"

definition warm_state :: server_state where
  "warm_state = \<lparr>cache = warm_cache, apiKeys = Map.empty\<rparr>"

definition sample_keygen :: keygen_world where
  "sample_keygen = \<lparr>random1 = ''k3j9x0q2m1a'', random2 = ''z8w7v6u5t4s'', new_date = 1700000000000\<rparr>"

section \<open>Facts about one call of getCryptoPrices\<close>

lemmas model_defs = getCryptoPrices_def fetch_and_store_def ids_or_default_def cacheKey_def
  price_url_def CACHE_TTL_def Let_def

lemma getCryptoPrices_failed:
  "result (getCryptoPrices w a c) = Inl m \<Longrightarrow> cache_after (getCryptoPrices w a c) = c"
  by (auto simp add: getCryptoPrices_def Let_def fetch_and_store_def
      split: sum.splits option.splits if_splits)

lemma getCryptoPrices_served:
  "requested (getCryptoPrices w a c) = [] \<Longrightarrow> cache_after (getCryptoPrices w a c) = c"
  by (auto simp add: getCryptoPrices_def Let_def fetch_and_store_def
      split: sum.splits option.splits if_splits)

lemma getCryptoPrices_stored:
  "requested (getCryptoPrices w a c) \<noteq> [] \<Longrightarrow> result (getCryptoPrices w a c) = Inr d \<Longrightarrow>
   cache_after (getCryptoPrices w a c) =
     c(cacheKey (ids_or_default a) \<mapsto> \<lparr>data = d, timestamp = date_now_store w\<rparr>)"
  by (auto simp add: getCryptoPrices_def Let_def fetch_and_store_def
      split: sum.splits option.splits if_splits)

section \<open>Facts about the routes\<close>

lemma prices_handler_cache:
  "cache (state_after (prices_handler w t s)) =
     cache_after (getCryptoPrices w (Some ''bitcoin,ethereum'') (cache s))"
  by (simp add: prices_handler_def Let_def split: sum.splits)

lemma price_by_id_handler_cache:
  "cache (state_after (price_by_id_handler w t i s)) =
     cache_after (getCryptoPrices w (Some (toLowerCase i)) (cache s))"
  by (simp add: price_by_id_handler_def Let_def split: sum.splits)

lemma price_route_state:
  "state_after (price_route rl h handler s) = s \<or>
   (\<exists>t. state_after (price_route rl h handler s) = state_after (handler t s))"
  by (auto simp add: price_route_def split: sum.splits option.splits prod.splits)

lemma generate_key_cache: "cache (state_after (generate_key g b s)) = cache s"
  by (simp add: generate_key_def Let_def)

lemma price_route_passed:
  "validateApiKey h = Inr (t, k) \<Longrightarrow> rl (createRateLimit Free) = None \<Longrightarrow>
   price_route rl h handler s = handler t s"
  by (simp add: price_route_def)

lemma price_route_limited:
  "validateApiKey h = Inr (t, k) \<Longrightarrow> rl (createRateLimit Free) = Some r \<Longrightarrow>
   price_route rl h handler s = \<lparr>reply = r, state_after = s, upstream_requests = [], console = []\<rparr>"
  by (simp add: price_route_def)

lemma price_route_rejected:
  "validateApiKey h = Inl r \<Longrightarrow>
   price_route rl h handler s = \<lparr>reply = r, state_after = s, upstream_requests = [], console = []\<rparr>"
  by (simp add: price_route_def)

lemma getCryptoPrices_fetch_fails:
  assumes fetch: "requested (getCryptoPrices w a c) \<noteq> []"
      and down: "axios_get w (price_url (ids_or_default a)) 10000 = Inl m"
  shows "getCryptoPrices w a c =
           \<lparr>result = Inl m, cache_after = c, requested = [price_url (ids_or_default a)],
            logged = [''Error fetching prices: '' @ m]\<rparr>"
  using assms
  by (auto simp add: getCryptoPrices_def Let_def fetch_and_store_def
      split: option.splits if_splits)

lemma toLowerCase_constructor: "toLowerCase ''constructor'' = ''constructor''"
  by code_simp

section \<open>The price cache\<close>

text \<open>
  C1: when a call for a query fetched upstream with success and stored its entry at time
  \<open>date_now_store wa\<close>, a later call for the same query, on any cache that still holds
  that entry, at a time less than 60000 ms after it, requests nothing upstream and
  returns the same payload. A call requests nothing upstream exactly when the cache holds
  an entry for the query with \<open>now - timestamp < 60000\<close>.
\<close>

theorem cache_hit_within_ttl:
  assumes fetched: "requested (getCryptoPrices wa a c) \<noteq> []"
      and ok: "result (getCryptoPrices wa a c) = Inr d"
      and same: "cb (cacheKey (ids_or_default a)) =
                 cache_after (getCryptoPrices wa a c) (cacheKey (ids_or_default a))"
      and soon: "date_now_check wb - date_now_store wa < 60000"
  shows "requested (getCryptoPrices wb a cb) = [] \<and> result (getCryptoPrices wb a cb) = Inr d \<and>
         ((requested (getCryptoPrices w a' c') = []) =
          (\<exists>e. c' (cacheKey (ids_or_default a')) = Some e \<and>
               date_now_check w - timestamp e < 60000))"
  using assms
  by (auto simp add: getCryptoPrices_def Let_def fetch_and_store_def CACHE_TTL_def
      split: option.splits sum.splits if_splits)

theorem cache_hit_within_ttl_witness:
  "requested (getCryptoPrices world_up (Some ''bitcoin'') Map.empty) \<noteq> [] \<and>
   result (getCryptoPrices world_up (Some ''bitcoin'') Map.empty) = Inr sample_prices \<and>
   date_now_check world_down - date_now_store world_up < 60000 \<and>
   requested (getCryptoPrices world_down (Some ''bitcoin'')
      (cache_after (getCryptoPrices world_up (Some ''bitcoin'') Map.empty))) = [] \<and>
   result (getCryptoPrices world_down (Some ''bitcoin'')
      (cache_after (getCryptoPrices world_up (Some ''bitcoin'') Map.empty))) = Inr sample_prices"
proof -
  have h1: "requested (getCryptoPrices world_up (Some ''bitcoin'') Map.empty) \<noteq> []"
    by (simp add: model_defs world_up_def)
  have h2: "result (getCryptoPrices world_up (Some ''bitcoin'') Map.empty) = Inr sample_prices"
    by (simp add: model_defs world_up_def)
  have h3: "date_now_check world_down - date_now_store world_up < 60000"
    by (simp add: world_up_def world_down_def)
  from cache_hit_within_ttl [where wa = world_up and a = "Some ''bitcoin''" and c = Map.empty
      and d = sample_prices and wb = world_down
      and cb = "cache_after (getCryptoPrices world_up (Some ''bitcoin'') Map.empty)",
      OF h1 h2 refl h3]
    h1 h2 h3 show ?thesis by blast
qed

text \<open>
  C6: a call whose fetch fails leaves the cache as it was, stale entries included; a call
  served from the cache leaves it as it was; a call that fetched with success changes the
  cache by one map update that binds the query's key to the whole record of the payload
  and the store time. \<^verbatim>\<open>POST /generate-key\<close> does not touch the cache, and a price route
  leaves it either untouched or as its one call of \<^verbatim>\<open>getCryptoPrices\<close> left it.
\<close>

theorem cache_written_only_on_successful_fetch:
  "(result (getCryptoPrices w a c) = Inl m \<longrightarrow> cache_after (getCryptoPrices w a c) = c) \<and>
   (requested (getCryptoPrices w a c) = [] \<longrightarrow> cache_after (getCryptoPrices w a c) = c) \<and>
   (requested (getCryptoPrices w a c) \<noteq> [] \<and> result (getCryptoPrices w a c) = Inr d \<longrightarrow>
      cache_after (getCryptoPrices w a c) =
        c(cacheKey (ids_or_default a) \<mapsto> \<lparr>data = d, timestamp = date_now_store w\<rparr>)) \<and>
   cache (state_after (generate_key g b s)) = cache s \<and>
   (cache (state_after (get_prices rl pw h s)) = cache s \<or>
    cache (state_after (get_prices rl pw h s)) =
      cache_after (getCryptoPrices pw (Some ''bitcoin,ethereum'') (cache s))) \<and>
   (cache (state_after (get_price_by_id rl pw h i s)) = cache s \<or>
    cache (state_after (get_price_by_id rl pw h i s)) =
      cache_after (getCryptoPrices pw (Some (toLowerCase i)) (cache s)))"
proof (intro conjI impI)
  show "cache (state_after (get_prices rl pw h s)) = cache s \<or>
        cache (state_after (get_prices rl pw h s)) =
          cache_after (getCryptoPrices pw (Some ''bitcoin,ethereum'') (cache s))"
    using price_route_state [of rl h "prices_handler pw" s]
    by (auto simp add: get_prices_def prices_handler_cache)
  show "cache (state_after (get_price_by_id rl pw h i s)) = cache s \<or>
        cache (state_after (get_price_by_id rl pw h i s)) =
          cache_after (getCryptoPrices pw (Some (toLowerCase i)) (cache s))"
    using price_route_state [of rl h "\<lambda>t. price_by_id_handler pw t i" s]
    by (auto simp add: get_price_by_id_def price_by_id_handler_cache)
qed (simp_all add: getCryptoPrices_failed getCryptoPrices_served getCryptoPrices_stored
       generate_key_cache)

theorem cache_written_only_on_successful_fetch_witness:
  "result (getCryptoPrices world_later_down (Some ''bitcoin'') warm_cache) = Inl ''Network Error'' \<and>
   cache_after (getCryptoPrices world_later_down (Some ''bitcoin'') warm_cache) = warm_cache \<and>
   requested (getCryptoPrices world_up (Some ''bitcoin'') Map.empty) \<noteq> [] \<and>
   result (getCryptoPrices world_up (Some ''bitcoin'') Map.empty) = Inr sample_prices \<and>
   cache_after (getCryptoPrices world_up (Some ''bitcoin'') Map.empty) =
     Map.empty(cacheKey (ids_or_default (Some ''bitcoin'')) \<mapsto>
       \<lparr>data = sample_prices, timestamp = date_now_store world_up\<rparr>)"
proof -
  have h1: "result (getCryptoPrices world_later_down (Some ''bitcoin'') warm_cache) =
              Inl ''Network Error''"
    by (simp add: model_defs world_later_down_def warm_cache_def sample_entry_def)
  have h2: "requested (getCryptoPrices world_up (Some ''bitcoin'') Map.empty) \<noteq> []"
    by (simp add: model_defs world_up_def)
  have h3: "result (getCryptoPrices world_up (Some ''bitcoin'') Map.empty) = Inr sample_prices"
    by (simp add: model_defs world_up_def)
  from cache_written_only_on_successful_fetch [where w = world_later_down
      and a = "Some ''bitcoin''" and c = warm_cache and m = "''Network Error''"]
    cache_written_only_on_successful_fetch [where w = world_up
      and a = "Some ''bitcoin''" and c = Map.empty and d = sample_prices]
    h1 h2 h3
  show ?thesis by blast
qed

text \<open>
  C8: for a query string different from \<open>q'\<close>, the cache key differs from the key of
  \<open>q'\<close>, the call leaves the entry of \<open>q'\<close> as it was, and neither its result nor its
  upstream requests depend on what the cache holds for \<open>q'\<close>.
\<close>

theorem cache_entries_are_per_query:
  assumes distinct: "ids_or_default a \<noteq> q'"
  shows "cacheKey (ids_or_default a) \<noteq> cacheKey q' \<and>
         cache_after (getCryptoPrices w a c) (cacheKey q') = c (cacheKey q') \<and>
         result (getCryptoPrices w a (c(cacheKey q' := x))) = result (getCryptoPrices w a c) \<and>
         requested (getCryptoPrices w a (c(cacheKey q' := x))) =
           requested (getCryptoPrices w a c)"
  using assms
  by (auto simp add: getCryptoPrices_def Let_def fetch_and_store_def cacheKey_def
           split: sum.splits option.splits)

theorem cache_entries_are_per_query_witness:
  "ids_or_default (Some ''bitcoin,ethereum'') \<noteq> ''bitcoin'' \<and>
   cacheKey (ids_or_default (Some ''bitcoin,ethereum'')) \<noteq> cacheKey ''bitcoin'' \<and>
   cache_after (getCryptoPrices world_later (Some ''bitcoin,ethereum'') warm_cache)
     (cacheKey ''bitcoin'') = warm_cache (cacheKey ''bitcoin'') \<and>
   result (getCryptoPrices world_later (Some ''bitcoin,ethereum'')
     (warm_cache(cacheKey ''bitcoin'' := None))) =
     result (getCryptoPrices world_later (Some ''bitcoin,ethereum'') warm_cache)"
proof -
  have h: "ids_or_default (Some ''bitcoin,ethereum'') \<noteq> ''bitcoin''"
    by (simp add: ids_or_default_def)
  from cache_entries_are_per_query [where a = "Some ''bitcoin,ethereum''" and q' = "''bitcoin''"
      and w = world_later and c = warm_cache and x = None, OF h] h
  show ?thesis by blast
qed

text \<open>
  C9: a call that finds a fresh entry returns its payload, requests nothing upstream and
  leaves the cache, the entry's timestamp included, exactly as it was; so a call at a
  time 60000 ms or more after that timestamp fetches again, whatever was read in between.
\<close>

theorem cache_hit_is_pure_read:
  assumes present: "c (cacheKey (ids_or_default a)) = Some e"
      and fresh: "date_now_check w - timestamp e < CACHE_TTL"
  shows "result (getCryptoPrices w a c) = Inr (data e) \<and>
         requested (getCryptoPrices w a c) = [] \<and>
         cache_after (getCryptoPrices w a c) = c \<and>
         (CACHE_TTL \<le> date_now_check w' - timestamp e \<longrightarrow>
            requested (getCryptoPrices w' a (cache_after (getCryptoPrices w a c))) =
              [price_url (ids_or_default a)])"
  using assms
  by (auto simp add: getCryptoPrices_def Let_def fetch_and_store_def split: sum.splits)

theorem cache_hit_is_pure_read_witness:
  "warm_cache (cacheKey (ids_or_default (Some ''bitcoin''))) = Some sample_entry \<and>
   date_now_check world_down - timestamp sample_entry < CACHE_TTL \<and>
   CACHE_TTL \<le> date_now_check world_later - timestamp sample_entry \<and>
   result (getCryptoPrices world_down (Some ''bitcoin'') warm_cache) = Inr (data sample_entry) \<and>
   cache_after (getCryptoPrices world_down (Some ''bitcoin'') warm_cache) = warm_cache \<and>
   requested (getCryptoPrices world_later (Some ''bitcoin'')
     (cache_after (getCryptoPrices world_down (Some ''bitcoin'') warm_cache))) =
     [price_url (ids_or_default (Some ''bitcoin''))]"
proof -
  have h1: "warm_cache (cacheKey (ids_or_default (Some ''bitcoin''))) = Some sample_entry"
    by (simp add: warm_cache_def cacheKey_def ids_or_default_def)
  have h2: "date_now_check world_down - timestamp sample_entry < CACHE_TTL"
    by (simp add: world_down_def sample_entry_def CACHE_TTL_def)
  have h3: "CACHE_TTL \<le> date_now_check world_later - timestamp sample_entry"
    by (simp add: world_later_def sample_entry_def CACHE_TTL_def)
  from cache_hit_is_pure_read [where c = warm_cache and a = "Some ''bitcoin''" and w = world_down
      and e = sample_entry and w' = world_later, OF h1 h2] h1 h2 h3
  show ?thesis by blast
qed

section \<open>Upstream failure\<close>

text \<open>
  C5: when a price request with an accepted key, let through by the limiter, reaches the
  provider and \<^verbatim>\<open>axios.get\<close> fails with message \<open>m\<close>, then \<^verbatim>\<open>getCryptoPrices\<close> requested
  exactly one URL, wrote one line with the message to \<^verbatim>\<open>console.error\<close>, rethrew the error
  and left the cache alone; \<^verbatim>\<open>GET /prices\<close> and \<^verbatim>\<open>GET /prices/:id\<close> answer with status 500
  and a body of an \<open>error\<close> field and a \<open>message\<close> field that carries \<open>m\<close>.
\<close>

theorem upstream_failure_is_one_attempt_and_500:
  assumes key: "validateApiKey h = Inr (t, k)"
      and pass: "rl (createRateLimit Free) = None"
      and fetch: "requested (getCryptoPrices w (Some q) (cache s)) \<noteq> []"
      and down: "axios_get w (price_url q) 10000 = Inl m"
  shows "getCryptoPrices w (Some q) (cache s) =
           \<lparr>result = Inl m, cache_after = cache s, requested = [price_url q],
            logged = [''Error fetching prices: '' @ m]\<rparr> \<and>
         (q = ''bitcoin,ethereum'' \<longrightarrow>
            get_prices rl w h s =
              \<lparr>reply = \<lparr>status = 500,
                         body = JObj [(''error'', JStr ''Failed to fetch prices''),
                                      (''message'', JStr m)]\<rparr>,
               state_after = s, upstream_requests = [price_url q],
               console = [''Error fetching prices: '' @ m]\<rparr>) \<and>
         (q = toLowerCase i \<longrightarrow>
            get_price_by_id rl w h i s =
              \<lparr>reply = \<lparr>status = 500,
                         body = JObj [(''error'', JStr ''Failed to fetch price''),
                                      (''message'', JStr m)]\<rparr>,
               state_after = s, upstream_requests = [price_url q],
               console = [''Error fetching prices: '' @ m]\<rparr>)"
proof -
  have g: "getCryptoPrices w (Some q) (cache s) =
           \<lparr>result = Inl m, cache_after = cache s, requested = [price_url q],
            logged = [''Error fetching prices: '' @ m]\<rparr>"
    using getCryptoPrices_fetch_fails [of w "Some q" "cache s" m] fetch down
    by (simp add: ids_or_default_def)
  have p: "q = ''bitcoin,ethereum'' \<Longrightarrow> prices_handler w t s =
              \<lparr>reply = \<lparr>status = 500,
                         body = JObj [(''error'', JStr ''Failed to fetch prices''),
                                      (''message'', JStr m)]\<rparr>,
               state_after = s, upstream_requests = [price_url q],
               console = [''Error fetching prices: '' @ m]\<rparr>"
    using g by (simp add: prices_handler_def Let_def)
  have b: "q = toLowerCase i \<Longrightarrow> price_by_id_handler w t i s =
              \<lparr>reply = \<lparr>status = 500,
                         body = JObj [(''error'', JStr ''Failed to fetch price''),
                                      (''message'', JStr m)]\<rparr>,
               state_after = s, upstream_requests = [price_url q],
               console = [''Error fetching prices: '' @ m]\<rparr>"
    using g by (simp add: price_by_id_handler_def Let_def)
  show ?thesis
    using g p b price_route_passed [where rl = rl, OF key pass]
    by (simp add: get_prices_def get_price_by_id_def)
qed

theorem upstream_failure_is_one_attempt_and_500_witness:
  "validateApiKey (Some ''pro_abc'') = Inr (Pro, ''pro_abc'') \<and>
   allow_all (createRateLimit Free) = None \<and>
   requested (getCryptoPrices world_later_down (Some (toLowerCase ''Bitcoin''))
     (cache warm_state)) \<noteq> [] \<and>
   axios_get world_later_down (price_url (toLowerCase ''Bitcoin'')) 10000 = Inl ''Network Error'' \<and>
   getCryptoPrices world_later_down (Some (toLowerCase ''Bitcoin'')) (cache warm_state) =
     \<lparr>result = Inl ''Network Error'', cache_after = cache warm_state,
      requested = [price_url (toLowerCase ''Bitcoin'')],
      logged = [''Error fetching prices: '' @ ''Network Error'']\<rparr> \<and>
   get_price_by_id allow_all world_later_down (Some ''pro_abc'') ''Bitcoin'' warm_state =
     \<lparr>reply = \<lparr>status = 500,
                body = JObj [(''error'', JStr ''Failed to fetch price''),
                             (''message'', JStr ''Network Error'')]\<rparr>,
      state_after = warm_state, upstream_requests = [price_url (toLowerCase ''Bitcoin'')],
      console = [''Error fetching prices: '' @ ''Network Error'']\<rparr> \<and>
   get_prices allow_all world_later_down (Some ''pro_abc'') warm_state =
     \<lparr>reply = \<lparr>status = 500,
                body = JObj [(''error'', JStr ''Failed to fetch prices''),
                             (''message'', JStr ''Network Error'')]\<rparr>,
      state_after = warm_state, upstream_requests = [price_url ''bitcoin,ethereum''],
      console = [''Error fetching prices: '' @ ''Network Error'']\<rparr>"
proof -
  have lc: "toLowerCase ''Bitcoin'' = ''bitcoin''"
    by code_simp
  have h1: "validateApiKey (Some ''pro_abc'') = Inr (Pro, ''pro_abc'')"
    by (simp add: validateApiKey_def startsWith_def)
  have h2: "allow_all (createRateLimit Free) = None"
    by (simp add: allow_all_def)
  have h3: "requested (getCryptoPrices world_later_down (Some (toLowerCase ''Bitcoin''))
              (cache warm_state)) \<noteq> []"
    by (simp add: lc model_defs warm_state_def warm_cache_def sample_entry_def
          world_later_down_def)
  have h4: "axios_get world_later_down (price_url (toLowerCase ''Bitcoin'')) 10000 =
              Inl ''Network Error''"
    by (simp add: world_later_down_def)
  have h5: "requested (getCryptoPrices world_later_down (Some ''bitcoin,ethereum'')
              (cache warm_state)) \<noteq> []"
    by (simp add: model_defs warm_state_def warm_cache_def world_later_down_def)
  have h6: "axios_get world_later_down (price_url ''bitcoin,ethereum'') 10000 =
              Inl ''Network Error''"
    by (simp add: world_later_down_def)
  from upstream_failure_is_one_attempt_and_500 [where h = "Some ''pro_abc''" and t = Pro
      and k = "''pro_abc''" and rl = allow_all and s = warm_state
      and q = "toLowerCase ''Bitcoin''" and w = world_later_down and m = "''Network Error''"
      and i = "''Bitcoin''", OF h1 h2 h3 h4]
    upstream_failure_is_one_attempt_and_500 [where h = "Some ''pro_abc''" and t = Pro
      and k = "''pro_abc''" and rl = allow_all and s = warm_state
      and q = "''bitcoin,ethereum''" and w = world_later_down and m = "''Network Error''",
      OF h1 h2 h5 h6]
    h1 h2 h3 h4
  show ?thesis by blast
qed

section \<open>API keys and tiers\<close>

text \<open>
  C2, as stated: every supplied key string resolves to a tier by its prefix. The empty
  string is a supplied header value, starts with neither prefix, and is not given the
  tier free: \<^verbatim>\<open>!apiKey\<close> holds for it and the request is answered 401.
\<close>

theorem validateApiKey_empty_key_counterexample:
  "\<not> startsWith '''' ''ent_'' \<and> \<not> startsWith '''' ''pro_'' \<and>
   validateApiKey (Some '''') \<noteq> Inr (Free, '''') \<and>
   validateApiKey (Some '''') =
     Inl \<lparr>status = 401,
          body = JObj [(''error'', JStr ''API key required''),
                       (''message'', JStr ''Get your free API key at https://your-domain.com'')]\<rparr>"
  by (simp add: validateApiKey_def startsWith_def)

text \<open>
  C2, amended: every supplied key string that is not empty resolves to enterprise when it
  starts with \<^verbatim>\<open>ent_\<close>, to pro when it starts with \<^verbatim>\<open>pro_\<close>, and to free otherwise; an
  absent header and an empty header value are answered 401 with an error body and get no
  tier.
\<close>

theorem validateApiKey_tier_by_prefix:
  "(k \<noteq> [] \<longrightarrow>
      validateApiKey (Some k) =
        Inr (if startsWith k ''ent_'' then Enterprise
             else if startsWith k ''pro_'' then Pro else Free, k)) \<and>
   validateApiKey None =
     Inl \<lparr>status = 401,
          body = JObj [(''error'', JStr ''API key required''),
                       (''message'', JStr ''Get your free API key at https://your-domain.com'')]\<rparr> \<and>
   validateApiKey (Some []) =
     Inl \<lparr>status = 401,
          body = JObj [(''error'', JStr ''API key required''),
                       (''message'', JStr ''Get your free API key at https://your-domain.com'')]\<rparr>"
  by (simp add: validateApiKey_def Let_def)

theorem validateApiKey_tier_by_prefix_witness:
  "''ent_x'' \<noteq> [] \<and> validateApiKey (Some ''ent_x'') = Inr (Enterprise, ''ent_x'') \<and>
   ''pro_x'' \<noteq> [] \<and> validateApiKey (Some ''pro_x'') = Inr (Pro, ''pro_x'') \<and>
   ''anything_else'' \<noteq> [] \<and> validateApiKey (Some ''anything_else'') = Inr (Free, ''anything_else'')"
  using validateApiKey_tier_by_prefix [of "''ent_x''"] validateApiKey_tier_by_prefix [of "''pro_x''"]
    validateApiKey_tier_by_prefix [of "''anything_else''"]
  by (simp add: startsWith_def)

section \<open>Rate limiting on the price routes\<close>

text \<open>
  C3: the table has the window 3600000 ms (one hour) for each tier and the maxima 100,
  10000 and 100000. On both price routes a request whose key resolved to any tier \<open>t\<close> is
  judged by the limiter built from the free options (window one hour, 100 requests): if
  that limiter answers, its answer is the reply and nothing else happens; if it lets the
  request pass, the handler runs. (A request without a key is answered 401 by
  \<^verbatim>\<open>validateApiKey\<close>, which stands before the limiter.)
\<close>

theorem free_limiter_on_both_price_routes:
  "limits Free = \<lparr>windowMs = 3600000, max_requests = 100\<rparr> \<and>
   limits Pro = \<lparr>windowMs = 3600000, max_requests = 10000\<rparr> \<and>
   limits Enterprise = \<lparr>windowMs = 3600000, max_requests = 100000\<rparr> \<and>
   (validateApiKey h = Inr (t, k) \<longrightarrow>
      (case rl \<lparr>opt_windowMs = 3600000, opt_max = 100,
                opt_message = JObj [(''error'', JStr ''Rate limit exceeded. Upgrade your plan.'')]\<rparr> of
         Some r \<Rightarrow>
           get_prices rl w h s =
             \<lparr>reply = r, state_after = s, upstream_requests = [], console = []\<rparr> \<and>
           get_price_by_id rl w h i s =
             \<lparr>reply = r, state_after = s, upstream_requests = [], console = []\<rparr>
       | None \<Rightarrow>
           get_prices rl w h s = prices_handler w t s \<and>
           get_price_by_id rl w h i s = price_by_id_handler w t i s))"
  by (simp add: get_prices_def get_price_by_id_def price_route_def createRateLimit_def
      split: option.splits)

theorem free_limiter_on_both_price_routes_witness:
  "validateApiKey (Some ''ent_abc'') = Inr (Enterprise, ''ent_abc'') \<and>
   free_budget_spent (createRateLimit Enterprise) = None \<and>
   get_prices free_budget_spent world_up (Some ''ent_abc'') empty_state =
     \<lparr>reply = \<lparr>status = 429,
                body = JObj [(''error'', JStr ''Rate limit exceeded. Upgrade your plan.'')]\<rparr>,
      state_after = empty_state, upstream_requests = [], console = []\<rparr> \<and>
   get_price_by_id free_budget_spent world_up (Some ''ent_abc'') ''bitcoin'' empty_state =
     \<lparr>reply = \<lparr>status = 429,
                body = JObj [(''error'', JStr ''Rate limit exceeded. Upgrade your plan.'')]\<rparr>,
      state_after = empty_state, upstream_requests = [], console = []\<rparr>"
proof -
  have h1: "validateApiKey (Some ''ent_abc'') = Inr (Enterprise, ''ent_abc'')"
    by (simp add: validateApiKey_def startsWith_def)
  have h2: "free_budget_spent (createRateLimit Enterprise) = None"
    by (simp add: free_budget_spent_def createRateLimit_def)
  have h3: "free_budget_spent \<lparr>opt_windowMs = 3600000, opt_max = 100,
                opt_message = JObj [(''error'', JStr ''Rate limit exceeded. Upgrade your plan.'')]\<rparr> =
            Some \<lparr>status = 429,
                body = JObj [(''error'', JStr ''Rate limit exceeded. Upgrade your plan.'')]\<rparr>"
    by (simp add: free_budget_spent_def)
  from free_limiter_on_both_price_routes [where h = "Some ''ent_abc''" and t = Enterprise
      and k = "''ent_abc''" and rl = free_budget_spent and w = world_up and s = empty_state
      and i = "''bitcoin''"] h1 h2 h3
  show ?thesis by simp
qed

section \<open>The route /prices/:id\<close>

text \<open>
  C4, at the request \<^verbatim>\<open>GET /prices/constructor\<close> with an accepted key, when the provider
  answers with the empty object: the returned mapping has no entry for the lowercased
  id, yet the read \<^verbatim>\<open>prices['constructor']\<close> finds the member that every plain object
  inherits, the test \<^verbatim>\<open>!prices[...]\<close> is false, and the reply is 200 with the success shape
  and empty data, not 404.
\<close>

theorem price_by_id_inherited_name_answers_200:
  "map_of ([] :: PriceData) (toLowerCase ''constructor'') = None \<and>
   get_price_by_id allow_all world_later (Some ''free_abc'') ''constructor'' empty_state =
     \<lparr>reply = \<lparr>status = 200,
                body = JObj [(''success'', JBool True), (''tier'', JStr ''free''),
                             (''data'', JObj []),
                             (''timestamp'', JStr ''2024-01-01T00:01:01.250Z'')]\<rparr>,
      state_after = \<lparr>cache = [''prices_constructor'' \<mapsto> \<lparr>data = [], timestamp = 61400\<rparr>],
                      apiKeys = Map.empty\<rparr>,
      upstream_requests = [price_url ''constructor''], console = []\<rparr>"
  by (simp add: get_price_by_id_def price_route_def validateApiKey_def startsWith_def
        allow_all_def price_by_id_handler_def toLowerCase_constructor model_defs
        world_later_def empty_state_def get_property_def Object_prototype_names_def
        success_body_def price_json_def)

text \<open>
  For an id whose lowercased form is not a member name of \<^verbatim>\<open>Object.prototype\<close>, the route
  does what C4 says: once the prices are there, the reply is 404 with the guidance
  message when the mapping has no entry for the lowercased id, and the success shape
  otherwise.
\<close>

lemma price_by_id_when_fetched:
  assumes key: "validateApiKey h = Inr (t, k)"
      and pass: "rl (createRateLimit Free) = None"
      and got: "result (getCryptoPrices w (Some (toLowerCase i)) (cache s)) = Inr prices"
      and plain: "toLowerCase i \<notin> set Object_prototype_names"
  shows "reply (get_price_by_id rl w h i s) =
           (if map_of prices (toLowerCase i) = None then
              \<lparr>status = 404,
               body = JObj [(''error'', JStr ''Cryptocurrency not found''),
                            (''message'', JStr (''No data for '' @ [CHR 0x27] @ i @ [CHR 0x27] @
                               ''. Try '' @ [CHR 0x27] @ ''bitcoin'' @ [CHR 0x27] @
                               '', '' @ [CHR 0x27] @ ''ethereum'' @ [CHR 0x27] @
                               '', '' @ [CHR 0x27] @ ''cardano'' @ [CHR 0x27] @ '', etc.''))]\<rparr>
            else \<lparr>status = 200, body = success_body t prices (date_iso w)\<rparr>)"
  using assms
  by (auto simp add: get_price_by_id_def price_route_def price_by_id_handler_def Let_def
        get_property_def split: option.splits)

lemma price_by_id_unknown_asset_404:
  "status (reply (get_price_by_id allow_all world_later (Some ''free_abc'') ''DoesNotExist''
     empty_state)) = 404"
proof -
  have lc: "toLowerCase ''DoesNotExist'' = ''doesnotexist''"
    by code_simp
  have h1: "validateApiKey (Some ''free_abc'') = Inr (Free, ''free_abc'')"
    by (simp add: validateApiKey_def startsWith_def)
  have h2: "allow_all (createRateLimit Free) = None"
    by (simp add: allow_all_def)
  have h3: "result (getCryptoPrices world_later (Some (toLowerCase ''DoesNotExist''))
              (cache empty_state)) = Inr []"
    by (simp add: lc model_defs world_later_def empty_state_def)
  have h4: "toLowerCase ''DoesNotExist'' \<notin> set Object_prototype_names"
    by (simp add: lc Object_prototype_names_def)
  from price_by_id_when_fetched [where rl = allow_all, OF h1 h2 h3 h4]
  show ?thesis by simp
qed

section \<open>Issuing keys\<close>

text \<open>
  C7: \<^verbatim>\<open>POST /generate-key\<close> answers with a key that is the prefix of the requested tier
  followed by the two random fragments: \<^verbatim>\<open>pro_\<close> for the tier string pro, \<^verbatim>\<open>ent_\<close> for
  enterprise, \<^verbatim>\<open>free_\<close> for free and for a body without a tier field; it stores the key
  in \<^verbatim>\<open>apiKeys\<close> with that tier and the creation time.
\<close>

theorem generate_key_prefix_follows_tier:
  "(map_of b ''tier'' = Some (JStr ''pro'') \<longrightarrow>
      startsWith (''pro_'' @ random1 g @ random2 g) ''pro_'' \<and>
      generate_key g b s =
        \<lparr>reply = \<lparr>status = 200,
                   body = JObj [(''apiKey'', JStr (''pro_'' @ random1 g @ random2 g)),
                                (''tier'', JStr ''pro''),
                                (''message'', JStr ''This is a test key. For production, please upgrade.'')]\<rparr>,
         state_after = s\<lparr>apiKeys := (apiKeys s)(''pro_'' @ random1 g @ random2 g \<mapsto>
                           \<lparr>tier = JStr ''pro'', createdAt = new_date g\<rparr>)\<rparr>,
         upstream_requests = [], console = []\<rparr>) \<and>
   (map_of b ''tier'' = Some (JStr ''enterprise'') \<longrightarrow>
      startsWith (''ent_'' @ random1 g @ random2 g) ''ent_'' \<and>
      generate_key g b s =
        \<lparr>reply = \<lparr>status = 200,
                   body = JObj [(''apiKey'', JStr (''ent_'' @ random1 g @ random2 g)),
                                (''tier'', JStr ''enterprise''),
                                (''message'', JStr ''This is a test key. For production, please upgrade.'')]\<rparr>,
         state_after = s\<lparr>apiKeys := (apiKeys s)(''ent_'' @ random1 g @ random2 g \<mapsto>
                           \<lparr>tier = JStr ''enterprise'', createdAt = new_date g\<rparr>)\<rparr>,
         upstream_requests = [], console = []\<rparr>) \<and>
   (map_of b ''tier'' = Some (JStr ''free'') \<or> map_of b ''tier'' = None \<longrightarrow>
      startsWith (''free_'' @ random1 g @ random2 g) ''free_'' \<and>
      generate_key g b s =
        \<lparr>reply = \<lparr>status = 200,
                   body = JObj [(''apiKey'', JStr (''free_'' @ random1 g @ random2 g)),
                                (''tier'', JStr ''free''),
                                (''message'', JStr ''This is a test key. For production, please upgrade.'')]\<rparr>,
         state_after = s\<lparr>apiKeys := (apiKeys s)(''free_'' @ random1 g @ random2 g \<mapsto>
                           \<lparr>tier = JStr ''free'', createdAt = new_date g\<rparr>)\<rparr>,
         upstream_requests = [], console = []\<rparr>)"
  by (auto simp add: generate_key_def Let_def startsWith_def)

theorem generate_key_prefix_follows_tier_witness:
  "map_of [(''tier'', JStr ''pro'')] ''tier'' = Some (JStr ''pro'') \<and>
   startsWith (''pro_'' @ random1 sample_keygen @ random2 sample_keygen) ''pro_'' \<and>
   reply (generate_key sample_keygen [(''tier'', JStr ''pro'')] empty_state) =
     \<lparr>status = 200,
      body = JObj [(''apiKey'', JStr ''pro_k3j9x0q2m1az8w7v6u5t4s''),
                   (''tier'', JStr ''pro''),
                   (''message'', JStr ''This is a test key. For production, please upgrade.'')]\<rparr> \<and>
   apiKeys (state_after (generate_key sample_keygen [(''tier'', JStr ''pro'')] empty_state))
     ''pro_k3j9x0q2m1az8w7v6u5t4s'' = Some \<lparr>tier = JStr ''pro'', createdAt = 1700000000000\<rparr> \<and>
   map_of ([] :: (string \<times> json) list) ''tier'' = None \<and>
   reply (generate_key sample_keygen [] empty_state) =
     \<lparr>status = 200,
      body = JObj [(''apiKey'', JStr ''free_k3j9x0q2m1az8w7v6u5t4s''),
                   (''tier'', JStr ''free''),
                   (''message'', JStr ''This is a test key. For production, please upgrade.'')]\<rparr>"
proof -
  have h1: "map_of [(''tier'', JStr ''pro'')] ''tier'' = Some (JStr ''pro'')"
    by simp
  have h2: "map_of ([] :: (string \<times> json) list) ''tier'' = None"
    by simp
  from generate_key_prefix_follows_tier [where b = "[(''tier'', JStr ''pro'')]"
         and g = sample_keygen and s = empty_state]
       generate_key_prefix_follows_tier [where b = "[]" and g = sample_keygen and s = empty_state]
       h1 h2
  show ?thesis by (simp add: sample_keygen_def)
qed

text \<open>
  C10: when the body carries a tier string other than pro and enterprise, the issued key
  starts with \<^verbatim>\<open>free_\<close>, so \<^verbatim>\<open>validateApiKey\<close> resolves it to free, while the stored record
  and the tier field of the answer carry the supplied string as it came.
\<close>

theorem generate_key_unknown_tier_is_free_key:
  assumes supplied: "map_of b ''tier'' = Some (JStr t)"
      and not_pro: "t \<noteq> ''pro''"
      and not_ent: "t \<noteq> ''enterprise''"
  shows "reply (generate_key g b s) =
           \<lparr>status = 200,
            body = JObj [(''apiKey'', JStr (''free_'' @ random1 g @ random2 g)),
                         (''tier'', JStr t),
                         (''message'', JStr ''This is a test key. For production, please upgrade.'')]\<rparr> \<and>
         apiKeys (state_after (generate_key g b s)) =
           (apiKeys s)(''free_'' @ random1 g @ random2 g \<mapsto> \<lparr>tier = JStr t, createdAt = new_date g\<rparr>) \<and>
         validateApiKey (Some (''free_'' @ random1 g @ random2 g)) =
           Inr (Free, ''free_'' @ random1 g @ random2 g)"
  using assms
  by (simp add: generate_key_def Let_def validateApiKey_def startsWith_def)

theorem generate_key_unknown_tier_is_free_key_witness:
  "map_of [(''tier'', JStr ''platinum'')] ''tier'' = Some (JStr ''platinum'') \<and>
   ''platinum'' \<noteq> ''pro'' \<and> ''platinum'' \<noteq> ''enterprise'' \<and>
   reply (generate_key sample_keygen [(''tier'', JStr ''platinum'')] empty_state) =
     \<lparr>status = 200,
      body = JObj [(''apiKey'', JStr ''free_k3j9x0q2m1az8w7v6u5t4s''),
                   (''tier'', JStr ''platinum''),
                   (''message'', JStr ''This is a test key. For production, please upgrade.'')]\<rparr> \<and>
   apiKeys (state_after (generate_key sample_keygen [(''tier'', JStr ''platinum'')] empty_state))
     ''free_k3j9x0q2m1az8w7v6u5t4s'' = Some \<lparr>tier = JStr ''platinum'', createdAt = 1700000000000\<rparr> \<and>
   validateApiKey (Some ''free_k3j9x0q2m1az8w7v6u5t4s'') = Inr (Free, ''free_k3j9x0q2m1az8w7v6u5t4s'')"
proof -
  have h1: "map_of [(''tier'', JStr ''platinum'')] ''tier'' = Some (JStr ''platinum'')"
    by simp
  have h2: "''platinum'' \<noteq> ''pro''" and h3: "''platinum'' \<noteq> ''enterprise''"
    by simp_all
  from generate_key_unknown_tier_is_free_key [where b = "[(''tier'', JStr ''platinum'')]"
         and t = "''platinum''" and g = sample_keygen and s = empty_state, OF h1 h2 h3] h1 h2 h3
  show ?thesis by (simp add: sample_keygen_def empty_state_def)
qed

end
